theory Spec2Isabelle
  imports Complex_Main "HOL-Library.Multiset"
begin

section \<open>Data model\<close>

text \<open>
  The program (\<^verbatim>\<open>task_1.py\<close>) reads JSON documents, maps each one to a triple
  \<^verbatim>\<open>(1, score, score**2)\<close> and folds the triples into a mean and a standard deviation.

  The program is modelled over a type \<open>'f\<close> of floats whose arithmetic is a parameter
  (\<open>float_ops\<close> below), so that a statement made for every arithmetic holds for the floats
  of Python whatever their rounding. Two arithmetics are defined: \<open>exact\<close>, the reals, for the
  statements that are about exact arithmetic, and \<open>binary64\<close>, the doubles of IEEE 754 with
  rounding to nearest, on which the program is evaluated at concrete inputs.
\<close>

text \<open>A value produced by \<^verbatim>\<open>json.load\<close>; an object keeps its members in document order.\<close>

datatype 'f json =
    JNull
  | JBool bool
  | JInt int
  | JFloat 'f
  | JString string
  | JArray "'f json list"
  | JObject "(string \<times> 'f json) list"

text \<open>
  What is found at a path: a file that \<^verbatim>\<open>open\<close> refuses (a directory, a file without read
  permission), a file on whose text \<^verbatim>\<open>json.load\<close> raises (bytes that do not decode, text
  that is not JSON, nesting beyond the recursion limit), or a file that parses to a value.
  A file system maps a path to what is found there, if anything.
\<close>

datatype open_error = IsADirectory | PermissionDenied

datatype load_error = NotDecodable | NotJSON | TooDeep

datatype 'f file_content = OpenFails open_error | LoadFails load_error | Parsed "'f json"

type_synonym 'f filesystem = "string \<rightharpoonup> 'f file_content"

text \<open>
  The exceptions the program can raise, with what each one carries: the errors of
  \<^verbatim>\<open>open\<close> hold the path, \<^verbatim>\<open>KeyError\<close> holds the key looked up and \<^verbatim>\<open>ValueError\<close> the
  string that \<^verbatim>\<open>float\<close> refused.
\<close>

datatype error =
    FileNotFoundError string
  | IsADirectoryError string
  | PermissionError string
  | UnicodeDecodeError
  | JSONDecodeError
  | RecursionError
  | KeyError string
  | TypeError
  | ValueError string
  | OverflowError
  | ZeroDivisionError

text \<open>The path that an error names, if it names one.\<close>

fun error_path :: "error \<Rightarrow> string option" where
  "error_path (FileNotFoundError p) = Some p"
| "error_path (IsADirectoryError p) = Some p"
| "error_path (PermissionError p) = Some p"
| "error_path e = None"

text \<open>The triple \<^verbatim>\<open>(count, score, score_squared)\<close> that the map stage yields; the count is an int.\<close>

type_synonym 'f triple = "int \<times> 'f \<times> 'f"

text \<open>
  The value of \<^verbatim>\<open>variance ** 0.5\<close>: a float, or a complex number (Python's float power
  returns one for a negative base and a fractional exponent).
\<close>

datatype 'f pynum = PyFloat 'f | PyComplex complex

text \<open>
  The float operations that the program uses. \<open>f_div_int x n\<close> is \<^verbatim>\<open>x / n\<close> for an int
  \<open>n \<noteq> 0\<close> (the int is converted to a float first, which can raise \<^verbatim>\<open>OverflowError\<close>);
  \<open>f_pow2 x\<close> is \<^verbatim>\<open>x ** 2\<close>, which can raise \<^verbatim>\<open>OverflowError\<close>; \<open>f_pow_half x\<close> is
  \<^verbatim>\<open>x ** 0.5\<close>; \<open>f_of_int\<close> is \<^verbatim>\<open>float\<close> on an int.
\<close>

record 'f float_ops =
  f_zero :: 'f
  f_add :: "'f \<Rightarrow> 'f \<Rightarrow> 'f"
  f_sub :: "'f \<Rightarrow> 'f \<Rightarrow> 'f"
  f_div_int :: "'f \<Rightarrow> int \<Rightarrow> error + 'f"
  f_pow2 :: "'f \<Rightarrow> error + 'f"
  f_pow_half :: "'f \<Rightarrow> 'f pynum"
  f_of_int :: "int \<Rightarrow> error + 'f"

section \<open>The map stage\<close>

text \<open>
  \<^verbatim>\<open>with open(path, 'r') as f: info = json.load(f)\<close>: the exception of \<^verbatim>\<open>open\<close> or of
  \<^verbatim>\<open>json.load\<close>, or the parsed value.
\<close>

definition load :: "'f filesystem \<Rightarrow> string \<Rightarrow> error + 'f json" where
  "load fs path =
     (case fs path of
        None \<Rightarrow> Inl (FileNotFoundError path)
      | Some (OpenFails IsADirectory) \<Rightarrow> Inl (IsADirectoryError path)
      | Some (OpenFails PermissionDenied) \<Rightarrow> Inl (PermissionError path)
      | Some (LoadFails NotDecodable) \<Rightarrow> Inl UnicodeDecodeError
      | Some (LoadFails NotJSON) \<Rightarrow> Inl JSONDecodeError
      | Some (LoadFails TooDeep) \<Rightarrow> Inl RecursionError
      | Some (Parsed info) \<Rightarrow> Inr info)"

text \<open>
  \<^verbatim>\<open>info['movieIMDbRating']\<close>: a dict is looked up by key (of two members with the same
  name the later one is the one \<^verbatim>\<open>json.load\<close> keeps); any other JSON value cannot be
  indexed by a string and raises \<^verbatim>\<open>TypeError\<close>.
\<close>

definition getitem :: "'f json \<Rightarrow> string \<Rightarrow> error + 'f json" where
  "getitem info k =
     (case info of
        JObject kvs \<Rightarrow> (case map_of (rev kvs) k of None \<Rightarrow> Inl (KeyError k) | Some x \<Rightarrow> Inr x)
      | _ \<Rightarrow> Inl TypeError)"

text \<open>
  The builtin \<^verbatim>\<open>float\<close> on a JSON value. A bool is an int (1 or 0). The parser of numeric
  strings is a parameter \<open>str_float\<close>: \<open>None\<close> where \<^verbatim>\<open>float(s)\<close> raises \<^verbatim>\<open>ValueError\<close>.
\<close>

fun py_float :: "'f float_ops \<Rightarrow> (string \<Rightarrow> 'f option) \<Rightarrow> 'f json \<Rightarrow> error + 'f" where
  "py_float ops str_float JNull = Inl TypeError"
| "py_float ops str_float (JBool b) = f_of_int ops (if b then 1 else 0)"
| "py_float ops str_float (JInt i) = f_of_int ops i"
| "py_float ops str_float (JFloat r) = Inr r"
| "py_float ops str_float (JString s) =
     (case str_float s of None \<Rightarrow> Inl (ValueError s) | Some r \<Rightarrow> Inr r)"
| "py_float ops str_float (JArray xs) = Inl TypeError"
| "py_float ops str_float (JObject kvs) = Inl TypeError"

text \<open>
  \<^verbatim>\<open>mapper\<close> is a generator function: its body runs when the generator is consumed. This
  is the outcome of running the body to its end: the exception it raises, or the list of the
  triples it yields.
\<close>

definition mapper ::
  "'f float_ops \<Rightarrow> (string \<Rightarrow> 'f option) \<Rightarrow> 'f filesystem \<Rightarrow> string \<Rightarrow> error + 'f triple list" where
  "mapper ops str_float fs path =
     (case load fs path of
        Inl e \<Rightarrow> Inl e
      | Inr info \<Rightarrow>
          (case getitem info ''movieIMDbRating'' of
             Inl e \<Rightarrow> Inl e
           | Inr x \<Rightarrow>
               (case py_float ops str_float x of
                  Inl e \<Rightarrow> Inl e
                | Inr score \<Rightarrow>
                    (case f_pow2 ops score of
                       Inl e \<Rightarrow> Inl e
                     | Inr score_squared \<Rightarrow> Inr [(1, score, score_squared)]))))"

section \<open>The reduce stage\<close>

text \<open>The \<^verbatim>\<open>for\<close> loop of \<^verbatim>\<open>reducer\<close>, on the accumulator \<^verbatim>\<open>(n, sum_score, sum_score_squared)\<close>.\<close>

fun reducer_loop :: "'f float_ops \<Rightarrow> int \<times> 'f \<times> 'f \<Rightarrow> 'f triple list \<Rightarrow> int \<times> 'f \<times> 'f" where
  "reducer_loop ops acc [] = acc"
| "reducer_loop ops (n, sum_score, sum_score_squared) ((cnt, score, score_squared) # data) =
     reducer_loop ops
       (n + cnt, f_add ops sum_score score, f_add ops sum_score_squared score_squared) data"

text \<open>
  \<^verbatim>\<open>x / n\<close> for a float \<open>x\<close> and an int \<open>n\<close>: \<^verbatim>\<open>ZeroDivisionError\<close> when \<open>n = 0\<close>, whatever
  \<open>x\<close> is; otherwise the division of the arithmetic, which raises \<^verbatim>\<open>OverflowError\<close> when
  \<open>n\<close> is too large for a float.
\<close>

definition truediv :: "'f float_ops \<Rightarrow> 'f \<Rightarrow> int \<Rightarrow> error + 'f" where
  "truediv ops x n = (if n = 0 then Inl ZeroDivisionError else f_div_int ops x n)"

text \<open>
  The two assignments after the loop: \<^verbatim>\<open>mean = sum_score / n\<close> and
  \<^verbatim>\<open>variance = (sum_score_squared / n) - (mean ** 2)\<close>, evaluated from left to right.
\<close>

definition mean_variance :: "'f float_ops \<Rightarrow> 'f triple list \<Rightarrow> error + ('f \<times> 'f)" where
  "mean_variance ops data =
     (case reducer_loop ops (0, f_zero ops, f_zero ops) data of
        (n, sum_score, sum_score_squared) \<Rightarrow>
          (case truediv ops sum_score n of
             Inl e \<Rightarrow> Inl e
           | Inr mean \<Rightarrow>
               (case truediv ops sum_score_squared n of
                  Inl e \<Rightarrow> Inl e
                | Inr q \<Rightarrow>
                    (case f_pow2 ops mean of
                       Inl e \<Rightarrow> Inl e
                     | Inr m2 \<Rightarrow> Inr (mean, f_sub ops q m2)))))"

text \<open>\<^verbatim>\<open>return (mean, variance ** 0.5)\<close>.\<close>

definition reducer :: "'f float_ops \<Rightarrow> 'f triple list \<Rightarrow> error + ('f \<times> 'f pynum)" where
  "reducer ops data =
     (case mean_variance ops data of
        Inl e \<Rightarrow> Inl e
      | Inr (mean, variance) \<Rightarrow> Inr (mean, f_pow_half ops variance))"

section \<open>The run of the module\<close>

text \<open>
  \<^verbatim>\<open>executor.map(mapper, files)\<close> calls \<^verbatim>\<open>mapper(path)\<close> in a worker process for each file.
  The call of a generator function runs none of its body: it returns a generator object.
  The worker must pickle what the call returned to send it to the parent process, a generator
  object cannot be pickled, and the parent receives \<^verbatim>\<open>TypeError\<close> in its place. The iterator
  that \<^verbatim>\<open>executor.map\<close> returns gives the results in the order of the files and raises the
  exception of a result when \<^verbatim>\<open>reducer\<close> asks for it.
\<close>

datatype 'f call_result = GeneratorObject "error + 'f triple list"

definition call_mapper ::
  "'f float_ops \<Rightarrow> (string \<Rightarrow> 'f option) \<Rightarrow> 'f filesystem \<Rightarrow> string \<Rightarrow> 'f call_result" where
  "call_mapper ops str_float fs path = GeneratorObject (mapper ops str_float fs path)"

definition send_back :: "'f call_result \<Rightarrow> error + 'f triple" where
  "send_back r = (case r of GeneratorObject body \<Rightarrow> Inl TypeError)"

definition executor_map ::
  "'f float_ops \<Rightarrow> (string \<Rightarrow> 'f option) \<Rightarrow> 'f filesystem \<Rightarrow> string list \<Rightarrow> (error + 'f triple) list" where
  "executor_map ops str_float fs files =
     map (\<lambda>path. send_back (call_mapper ops str_float fs path)) files"

text \<open>Iterating over the results: the first exception ends the iteration.\<close>

fun iterate :: "(error + 'a) list \<Rightarrow> error + 'a list" where
  "iterate [] = Inr []"
| "iterate (Inl e # rs) = Inl e"
| "iterate (Inr x # rs) = (case iterate rs of Inl e \<Rightarrow> Inl e | Inr xs \<Rightarrow> Inr (x # xs))"

text \<open>The module: \<^verbatim>\<open>mapped_data = executor.map(mapper, files)\<close>, then \<^verbatim>\<open>reducer(mapped_data)\<close>.\<close>

definition pipeline ::
  "'f float_ops \<Rightarrow> (string \<Rightarrow> 'f option) \<Rightarrow> 'f filesystem \<Rightarrow> string list \<Rightarrow> error + ('f \<times> 'f pynum)" where
  "pipeline ops str_float fs files =
     (case iterate (executor_map ops str_float fs files) of
        Inl e \<Rightarrow> Inl e
      | Inr data \<Rightarrow> reducer ops data)"

section \<open>Exact arithmetic\<close>

text \<open>
  \<^verbatim>\<open>x ** 0.5\<close> on a real \<open>x\<close>: the square root when \<open>0 \<le> x\<close>, and for \<open>x < 0\<close> the complex
  principal value \<open>\<i> * sqrt (- x)\<close>.
\<close>

definition pow_half :: "real \<Rightarrow> real pynum" where
  "pow_half x = (if x < 0 then PyComplex (Complex 0 (sqrt (- x))) else PyFloat (sqrt x))"

text \<open>
  The arithmetic of the reals: no rounding and no bound on the range, so no
  \<^verbatim>\<open>OverflowError\<close>. It is the arithmetic of the statements below that are about exact
  arithmetic; the floats of Python are not an instance of it.
\<close>

definition exact :: "real float_ops" where
  "exact =
     \<lparr>f_zero = 0, f_add = (+), f_sub = (-),
      f_div_int = (\<lambda>x n. Inr (x / real_of_int n)),
      f_pow2 = (\<lambda>x. Inr (x\<^sup>2)),
      f_pow_half = pow_half,
      f_of_int = (\<lambda>i. Inr (real_of_int i))\<rparr>"

section \<open>Binary64 arithmetic\<close>

text \<open>
  A double is a finite value, an infinity or NaN. A finite double is given by the real it
  denotes, which is a real that \<open>round64\<close> below leaves unchanged; every operation returns
  such values. The sign of a zero is not modelled.
\<close>

datatype f64 = Finite real | PlusInf | MinusInf | NaN

text \<open>Rounding to the nearest integer, a tie to the even one.\<close>

definition round_half_even :: "real \<Rightarrow> int" where
  "round_half_even x =
     (let f = \<lfloor>x\<rfloor>; d = x - of_int f
      in if d < 1 / 2 then f else if 1 / 2 < d then f + 1 else if even f then f else f + 1)"

text \<open>
  The exponent of the unit in the last place for a real \<open>x\<close>: 52 below the exponent of \<open>x\<close>,
  which is at least \<open>-1022\<close> (below it the doubles are subnormal).
\<close>

definition ulp_exponent :: "real \<Rightarrow> int" where
  "ulp_exponent x = max \<lfloor>log 2 \<bar>x\<bar>\<rfloor> (- 1022) - 52"

text \<open>
  The double nearest to a real, a tie to the even significand; a real whose nearest double
  would be beyond the largest one rounds to an infinity.
\<close>

definition round64 :: "real \<Rightarrow> f64" where
  "round64 x =
     (if 2 ^ 1024 - 2 ^ 970 \<le> x then PlusInf
      else if x \<le> - (2 ^ 1024 - 2 ^ 970) then MinusInf
      else Finite (of_int (round_half_even (x / 2 powi ulp_exponent x)) * 2 powi ulp_exponent x))"

fun f64_neg :: "f64 \<Rightarrow> f64" where
  "f64_neg (Finite x) = Finite (- x)"
| "f64_neg PlusInf = MinusInf"
| "f64_neg MinusInf = PlusInf"
| "f64_neg NaN = NaN"

fun f64_add :: "f64 \<Rightarrow> f64 \<Rightarrow> f64" where
  "f64_add (Finite x) (Finite y) = round64 (x + y)"
| "f64_add NaN b = NaN"
| "f64_add a NaN = NaN"
| "f64_add PlusInf MinusInf = NaN"
| "f64_add MinusInf PlusInf = NaN"
| "f64_add PlusInf b = PlusInf"
| "f64_add a PlusInf = PlusInf"
| "f64_add MinusInf b = MinusInf"
| "f64_add a MinusInf = MinusInf"

definition f64_sub :: "f64 \<Rightarrow> f64 \<Rightarrow> f64" where
  "f64_sub a b = f64_add a (f64_neg b)"

text \<open>\<^verbatim>\<open>float(i)\<close>: the nearest double, or \<^verbatim>\<open>OverflowError\<close> when the int is too large.\<close>

definition f64_of_int :: "int \<Rightarrow> error + f64" where
  "f64_of_int i =
     (case round64 (real_of_int i) of Finite x \<Rightarrow> Inr (Finite x) | _ \<Rightarrow> Inl OverflowError)"

text \<open>A double divided by the finite double \<open>y \<noteq> 0\<close>.\<close>

fun f64_div_finite :: "f64 \<Rightarrow> real \<Rightarrow> f64" where
  "f64_div_finite (Finite x) y = round64 (x / y)"
| "f64_div_finite PlusInf y = (if 0 < y then PlusInf else MinusInf)"
| "f64_div_finite MinusInf y = (if 0 < y then MinusInf else PlusInf)"
| "f64_div_finite NaN y = NaN"

definition f64_div_int :: "f64 \<Rightarrow> int \<Rightarrow> error + f64" where
  "f64_div_int a n =
     (case round64 (real_of_int n) of
        Finite y \<Rightarrow> Inr (f64_div_finite a y)
      | _ \<Rightarrow> Inl OverflowError)"

text \<open>
  \<^verbatim>\<open>x ** 2\<close> and \<^verbatim>\<open>x ** 0.5\<close> are computed by the \<^verbatim>\<open>pow\<close> of the C library, taken here to
  round correctly (a library may return a neighbouring double). \<^verbatim>\<open>x ** 2\<close> raises
  \<^verbatim>\<open>OverflowError\<close> when the result is beyond the largest double, and returns silently when
  it underflows. \<^verbatim>\<open>x ** 0.5\<close> on a negative finite \<open>x\<close> is a complex number; the exact
  principal value \<open>\<i> * sqrt (- x)\<close> stands for the one that Python returns, whose parts are
  rounded and whose real part is a small residue instead of 0.
\<close>

fun f64_pow2 :: "f64 \<Rightarrow> error + f64" where
  "f64_pow2 (Finite x) =
     (case round64 (x\<^sup>2) of Finite y \<Rightarrow> Inr (Finite y) | _ \<Rightarrow> Inl OverflowError)"
| "f64_pow2 PlusInf = Inr PlusInf"
| "f64_pow2 MinusInf = Inr PlusInf"
| "f64_pow2 NaN = Inr NaN"

fun f64_pow_half :: "f64 \<Rightarrow> f64 pynum" where
  "f64_pow_half (Finite x) =
     (if x < 0 then PyComplex (Complex 0 (sqrt (- x))) else PyFloat (round64 (sqrt x)))"
| "f64_pow_half PlusInf = PyFloat PlusInf"
| "f64_pow_half MinusInf = PyFloat PlusInf"
| "f64_pow_half NaN = PyFloat NaN"

definition binary64 :: "f64 float_ops" where
  "binary64 =
     \<lparr>f_zero = Finite 0, f_add = f64_add, f_sub = f64_sub, f_div_int = f64_div_int,
      f_pow2 = f64_pow2, f_pow_half = f64_pow_half, f_of_int = f64_of_int\<rparr>"


section \<open>The statistics of the specification\<close>

text \<open>
  The sums that the specification names \<open>n\<close>, \<open>S\<close> and \<open>Q\<close>, and the mean and the variance it
  derives from them, in exact arithmetic: \<open>mean = S / n\<close> and \<open>variance = Q / n - mean\<^sup>2\<close>.
\<close>

definition total_count :: "real triple list \<Rightarrow> int" where
  "total_count data = (\<Sum>(c, v, v2)\<leftarrow>data. c)"

definition total_value :: "real triple list \<Rightarrow> real" where
  "total_value data = (\<Sum>(c, v, v2)\<leftarrow>data. v)"

definition total_square :: "real triple list \<Rightarrow> real" where
  "total_square data = (\<Sum>(c, v, v2)\<leftarrow>data. v2)"

definition spec_mean :: "real triple list \<Rightarrow> real" where
  "spec_mean data = total_value data / real_of_int (total_count data)"

definition spec_variance :: "real triple list \<Rightarrow> real" where
  "spec_variance data =
     total_square data / real_of_int (total_count data) - (spec_mean data)\<^sup>2"

text \<open>
  A triple whose third component is the square of the second and whose count is at least 1;
  the triples of the mapper have count 1.
\<close>

definition counted_square :: "real triple \<Rightarrow> bool" where
  "counted_square r = (case r of (c, v, v2) \<Rightarrow> 1 \<le> c \<and> v2 = v * v)"

section \<open>Conditions on a document\<close>

text \<open>
  The ways in which the document at a path can make \<^verbatim>\<open>mapper\<close> fail, stated on the file
  system: there is no file; it cannot be opened; its content cannot be decoded or parsed as
  JSON; the parsed value has no member \<^verbatim>\<open>movieIMDbRating\<close> (it is an object without that
  name, or not an object at all); the member is there and \<^verbatim>\<open>float\<close> refuses it; \<^verbatim>\<open>float\<close>
  accepts it and the square of the float overflows.
\<close>

definition file_missing :: "'f filesystem \<Rightarrow> string \<Rightarrow> bool" where
  "file_missing fs path = (fs path = None)"

definition cannot_open :: "'f filesystem \<Rightarrow> string \<Rightarrow> bool" where
  "cannot_open fs path = (case fs path of Some (OpenFails oe) \<Rightarrow> True | _ \<Rightarrow> False)"

definition not_json :: "'f filesystem \<Rightarrow> string \<Rightarrow> bool" where
  "not_json fs path = (case fs path of Some (LoadFails le) \<Rightarrow> True | _ \<Rightarrow> False)"

definition lacks_field :: "'f filesystem \<Rightarrow> string \<Rightarrow> bool" where
  "lacks_field fs path =
     (case fs path of
        Some (Parsed info) \<Rightarrow>
          (case info of JObject kvs \<Rightarrow> ''movieIMDbRating'' \<notin> fst ` set kvs | _ \<Rightarrow> True)
      | _ \<Rightarrow> False)"

definition field_value :: "'f filesystem \<Rightarrow> string \<Rightarrow> 'f json option" where
  "field_value fs path =
     (case fs path of
        Some (Parsed info) \<Rightarrow>
          (case info of JObject kvs \<Rightarrow> map_of (rev kvs) ''movieIMDbRating'' | _ \<Rightarrow> None)
      | _ \<Rightarrow> None)"

definition field_not_coercible ::
  "'f float_ops \<Rightarrow> (string \<Rightarrow> 'f option) \<Rightarrow> 'f filesystem \<Rightarrow> string \<Rightarrow> bool" where
  "field_not_coercible ops str_float fs path =
     (case field_value fs path of
        None \<Rightarrow> False
      | Some x \<Rightarrow> (case py_float ops str_float x of Inl e \<Rightarrow> True | Inr v \<Rightarrow> False))"

text \<open>The document at \<open>path\<close> exists, parses, and its rating member coerces to the float \<open>v\<close>.\<close>

definition has_rating ::
  "'f float_ops \<Rightarrow> (string \<Rightarrow> 'f option) \<Rightarrow> 'f filesystem \<Rightarrow> string \<Rightarrow> 'f \<Rightarrow> bool" where
  "has_rating ops str_float fs path v =
     (case field_value fs path of None \<Rightarrow> False | Some x \<Rightarrow> py_float ops str_float x = Inr v)"

definition square_overflows ::
  "'f float_ops \<Rightarrow> (string \<Rightarrow> 'f option) \<Rightarrow> 'f filesystem \<Rightarrow> string \<Rightarrow> bool" where
  "square_overflows ops str_float fs path =
     (case field_value fs path of
        None \<Rightarrow> False
      | Some x \<Rightarrow>
          (case py_float ops str_float x of
             Inl e \<Rightarrow> False
           | Inr v \<Rightarrow> (case f_pow2 ops v of Inl e \<Rightarrow> True | Inr w \<Rightarrow> False)))"

text \<open>A malformed document is one with unparseable content or without the field.\<close>

definition malformed :: "'f filesystem \<Rightarrow> string \<Rightarrow> bool" where
  "malformed fs path = (not_json fs path \<or> lacks_field fs path)"

section \<open>Sample inputs\<close>

text \<open>A document whose only member is the rating \<open>v\<close>, and a \<^verbatim>\<open>float\<close> that parses no string.\<close>

definition rating_doc :: "'f \<Rightarrow> 'f file_content" where
  "rating_doc v = Parsed (JObject [(''movieIMDbRating'', JFloat v)])"

definition no_str_float :: "string \<Rightarrow> 'f option" where
  "no_str_float s = None"

text \<open>Eight documents with the ratings 2, 4, 4, 4, 5, 5, 7, 9, and the triples of these ratings.\<close>

definition textbook_files :: "string list" where
  "textbook_files =
     [''1.json'', ''2.json'', ''3.json'', ''4.json'', ''5.json'', ''6.json'', ''7.json'', ''8.json'']"

definition textbook_fs :: "f64 filesystem" where
  "textbook_fs =
     map_of (zip textbook_files
       (map rating_doc
         [Finite 2, Finite 4, Finite 4, Finite 4, Finite 5, Finite 5, Finite 7, Finite 9]))"

definition textbook_triples :: "f64 triple list" where
  "textbook_triples =
     [(1, Finite 2, Finite 4), (1, Finite 4, Finite 16), (1, Finite 4, Finite 16),
      (1, Finite 4, Finite 16), (1, Finite 5, Finite 25), (1, Finite 5, Finite 25),
      (1, Finite 7, Finite 49), (1, Finite 9, Finite 81)]"

text \<open>
  Two documents, one of them an object without the rating member: the first one in
  \<open>bad_first_fs\<close>, the second one in \<open>bad_second_fs\<close>.
\<close>

definition bad_first_fs :: "f64 filesystem" where
  "bad_first_fs = map_of [(''a.json'', Parsed (JObject [])), (''b.json'', rating_doc (Finite 5))]"

definition bad_second_fs :: "f64 filesystem" where
  "bad_second_fs = map_of [(''a.json'', rating_doc (Finite 5)), (''b.json'', Parsed (JObject []))]"

text \<open>
  A document whose rating is the double \<open>2\<^sup>6\<^sup>0\<^sup>0\<close> (about \<^verbatim>\<open>4.15e180\<close>), one whose rating is its
  negative, and a directory.
\<close>

definition huge_fs :: "f64 filesystem" where
  "huge_fs =
     map_of [(''huge.json'', rating_doc (Finite (2 ^ 600))),
             (''negative.json'', rating_doc (Finite (- (2 ^ 600)))),
             (''dir.json'', OpenFails IsADirectory)]"





section \<open>The reduce stage in exact arithmetic\<close>

lemma exact_fields:
  "f_zero exact = 0"
  "f_add exact = (+)"
  "f_sub exact = (-)"
  "f_div_int exact x n = Inr (x / real_of_int n)"
  "f_pow2 exact x = Inr (x\<^sup>2)"
  "f_pow_half exact = pow_half"
  "f_of_int exact i = Inr (real_of_int i)"
  by (simp_all add: exact_def)

lemma reducer_loop_totals:
  "reducer_loop exact (n, s, q) data =
     (n + total_count data, s + total_value data, q + total_square data)"
  by (induction data arbitrary: n s q)
     (auto simp: total_count_def total_value_def total_square_def exact_fields)

lemma mean_variance_exact:
  "mean_variance exact data =
     (if total_count data = 0 then Inl ZeroDivisionError
      else Inr (spec_mean data, spec_variance data))"
  by (simp add: mean_variance_def reducer_loop_totals truediv_def spec_mean_def
      spec_variance_def exact_fields)

lemma reducer_unfold:
  "reducer exact data =
     (if total_count data = 0 then Inl ZeroDivisionError
      else Inr (spec_mean data, pow_half (spec_variance data)))"
  by (simp add: reducer_def mean_variance_exact exact_fields)

lemma totals_mset:
  assumes "mset xs = mset ys"
  shows "total_count xs = total_count ys"
    and "total_value xs = total_value ys"
    and "total_square xs = total_square ys"
proof -
  have perm: "sum_list (map f xs) = sum_list (map f ys)"
    for f :: "real triple \<Rightarrow> 'a::comm_monoid_add"
  proof -
    have "sum_list (map f xs) = sum_mset (image_mset f (mset xs))"
      by (metis mset_map sum_mset_sum_list)
    also have "\<dots> = sum_mset (image_mset f (mset ys))"
      by (simp add: assms)
    also have "\<dots> = sum_list (map f ys)"
      by (metis mset_map sum_mset_sum_list)
    finally show ?thesis .
  qed
  show "total_count xs = total_count ys"
    unfolding total_count_def by (rule perm)
  show "total_value xs = total_value ys"
    unfolding total_value_def by (rule perm)
  show "total_square xs = total_square ys"
    unfolding total_square_def by (rule perm)
qed

section \<open>The variance of counted squares is not negative\<close>

lemma counted_totals:
  assumes "\<forall>r\<in>set data. counted_square r"
  shows "int (length data) \<le> total_count data"
    and "total_square data = (\<Sum>r\<leftarrow>data. (fst (snd r))\<^sup>2)"
    and "total_value data = (\<Sum>r\<leftarrow>data. fst (snd r))"
  using assms
  by (induction data)
     (auto simp: total_count_def total_square_def total_value_def counted_square_def
        power2_eq_square)

lemma sum_squared_deviations:
  "(\<Sum>r\<leftarrow>data. (f r - m)\<^sup>2) =
     (\<Sum>r\<leftarrow>data. (f r)\<^sup>2) - 2 * m * (\<Sum>r\<leftarrow>data. f r) + real (length data) * m\<^sup>2"
  for f :: "'a \<Rightarrow> real"
  by (induction data) (simp_all add: power2_eq_square algebra_simps)


lemma counted_variance_nonneg:
  assumes ne: "data \<noteq> []" and sh: "\<forall>r\<in>set data. counted_square r"
  shows "0 \<le> spec_variance data"
proof -
  define k where "k = real (length data)"
  define n where "n = real_of_int (total_count data)"
  define S where "S = total_value data"
  define Q where "Q = total_square data"
  have kpos: "0 < k"
    using ne by (simp add: k_def)
  have kn: "k \<le> n"
    using counted_totals(1)[OF sh] by (simp add: k_def n_def)
  have npos: "0 < n"
    using kpos kn by linarith
  have Qnonneg: "0 \<le> Q"
    unfolding Q_def counted_totals(2)[OF sh] by (rule sum_list_nonneg) auto
  have "0 \<le> (\<Sum>r\<leftarrow>data. (fst (snd r) - S / k)\<^sup>2)"
    by (rule sum_list_nonneg) auto
  also have "\<dots> = Q - 2 * (S / k) * S + k * (S / k)\<^sup>2"
    by (simp add: sum_squared_deviations counted_totals(2,3)[OF sh] Q_def S_def k_def)
  also have "\<dots> = Q - S\<^sup>2 / k"
    using kpos by (simp add: power2_eq_square field_simps)
  finally have "S\<^sup>2 / k \<le> Q"
    by simp
  then have "S\<^sup>2 \<le> k * Q"
    using kpos by (simp add: field_simps)
  also have "\<dots> \<le> n * Q"
    using kn Qnonneg by (rule mult_right_mono)
  finally have "S\<^sup>2 \<le> n * Q" .
  then have "S\<^sup>2 / n\<^sup>2 \<le> Q / n"
    using npos by (simp add: power2_eq_square field_simps)
  then have "0 \<le> Q / n - (S / n)\<^sup>2"
    by (simp add: power_divide)
  then show ?thesis
    by (simp add: spec_variance_def spec_mean_def n_def Q_def S_def)
qed

section \<open>Rounding to a double\<close>

lemma round_half_even_of_int: "round_half_even (of_int j) = j"
  by (simp add: round_half_even_def)





lemma round64_zero: "round64 0 = Finite 0"
  by (simp add: round64_def round_half_even_def)

lemma round64_of_int:
  assumes "\<bar>k\<bar> < 2 ^ 53"
  shows "round64 (real_of_int k) = Finite (real_of_int k)"
proof (cases "k = 0")
  case True
  then show ?thesis by (simp add: round64_zero)
next
  case False
  define x where "x = real_of_int k"
  define u where "u = ulp_exponent x"
  have small: "\<bar>x\<bar> < 2 ^ 53"
  proof -
    have "real_of_int \<bar>k\<bar> < real_of_int (2 ^ 53)"
      using assms by (simp only: of_int_less_iff)
    then show ?thesis by (simp add: x_def)
  qed
  have "(2::real) ^ 53 \<le> 2 ^ 1024 - 2 ^ 970"
    by simp
  with small have range: "\<not> 2 ^ 1024 - 2 ^ 970 \<le> x" "\<not> x \<le> - (2 ^ 1024 - 2 ^ 970)"
    by linarith+
  have pos: "0 < \<bar>x\<bar>"
    using False by (simp add: x_def)
  have p53: "(2::real) powr 53 = 2 ^ 53"
    by (simp add: powr_numeral)
  have "log 2 \<bar>x\<bar> < 53 \<longleftrightarrow> \<bar>x\<bar> < 2 powr 53"
    by (rule log_less_iff) (use pos in simp_all)
  with small have "log 2 \<bar>x\<bar> < 53"
    by (simp only: p53)
  then have "\<lfloor>log 2 \<bar>x\<bar>\<rfloor> < 53"
    by (simp add: floor_less_iff)
  then have u_le: "u \<le> 0"
    by (simp add: u_def ulp_exponent_def)
  define j where "j = nat (- u)"
  have pw: "(2::real) powi u = inverse (2 ^ j)"
    using u_le by (cases "u = 0") (simp_all add: power_int_def j_def power_one_over inverse_eq_divide)
  have "x / 2 powi u = real_of_int (k * 2 ^ j)"
    by (simp add: pw x_def divide_inverse)
  then have "round_half_even (x / 2 powi u) = k * 2 ^ j"
    by (simp only: round_half_even_of_int)
  then have "real_of_int (round_half_even (x / 2 powi u)) * 2 powi u = x"
    by (simp add: pw x_def)
  then show ?thesis
    using range unfolding x_def [symmetric] by (simp add: round64_def u_def)
qed

lemma round64_numeral:
  "(numeral w :: int) < 2 ^ 53 \<Longrightarrow> round64 (numeral w) = Finite (numeral w)"
  using round64_of_int [of "numeral w"] by simp

lemma round64_1: "round64 1 = Finite 1"
  using round64_of_int [of 1] by simp

section \<open>The reducer on doubles that are small integers\<close>

lemma binary64_fields:
  "f_zero binary64 = Finite 0"
  "f_add binary64 = f64_add"
  "f_sub binary64 = f64_sub"
  "f_div_int binary64 = f64_div_int"
  "f_pow2 binary64 = f64_pow2"
  "f_pow_half binary64 = f64_pow_half"
  "f_of_int binary64 = f64_of_int"
  by (simp_all add: binary64_def)

lemma reducer_textbook_triples:
  "reducer binary64 textbook_triples = Inr (Finite 5, PyFloat (Finite 2))"
  by (simp add: reducer_def mean_variance_def truediv_def textbook_triples_def
      binary64_fields f64_div_int_def f64_sub_def round64_numeral round64_zero round64_1)


section \<open>The reducer on three triples of the double 0.1\<close>














section \<open>What the mapper does on each kind of document\<close>

lemma member_iff_lookup:
  "k \<in> fst ` set kvs \<longleftrightarrow> (\<exists>x. map_of (rev kvs) k = Some x)"
proof -
  have "map_of (rev kvs) k = None \<longleftrightarrow> k \<notin> fst ` set (rev kvs)"
    by (rule map_of_eq_None_iff)
  then show ?thesis by (cases "map_of (rev kvs) k") simp_all
qed

lemma mapper_Inr_iff:
  "mapper ops str_float fs path = Inr rs \<longleftrightarrow>
     (\<exists>v w. has_rating ops str_float fs path v \<and> f_pow2 ops v = Inr w \<and> rs = [(1, v, w)])"
  by (auto simp: has_rating_def field_value_def mapper_def load_def getitem_def
      split: option.splits file_content.splits open_error.splits load_error.splits
        json.splits sum.splits)

lemma mapper_Inl_iff:
  "(\<exists>e. mapper ops str_float fs path = Inl e) \<longleftrightarrow>
     file_missing fs path \<or> cannot_open fs path \<or> not_json fs path \<or> lacks_field fs path
     \<or> field_not_coercible ops str_float fs path \<or> square_overflows ops str_float fs path"
  by (auto simp: file_missing_def cannot_open_def not_json_def lacks_field_def
      field_not_coercible_def square_overflows_def field_value_def mapper_def load_def
      getitem_def member_iff_lookup
      split: option.splits file_content.splits open_error.splits load_error.splits
        json.splits sum.splits)

lemma mapper_malformed:
  assumes "malformed fs path"
  shows "\<exists>e. mapper ops str_float fs path = Inl e \<and> error_path e = None"
  using assms
  by (auto simp: malformed_def not_json_def lacks_field_def mapper_def load_def getitem_def
      member_iff_lookup
      split: option.splits file_content.splits open_error.splits load_error.splits
        json.splits)

section \<open>The run\<close>

lemma reducer_empty: "reducer ops [] = Inl ZeroDivisionError"
  by (simp add: reducer_def mean_variance_def truediv_def)

lemma pipeline_empty: "pipeline ops str_float fs [] = Inl ZeroDivisionError"
  by (simp add: pipeline_def executor_map_def reducer_empty)

lemma pipeline_nonempty:
  assumes "files \<noteq> []"
  shows "pipeline ops str_float fs files = Inl TypeError"
proof -
  from assms obtain path rest where "files = path # rest"
    by (cases files) auto
  then show ?thesis
    by (simp add: pipeline_def executor_map_def send_back_def call_mapper_def)
qed

section \<open>Claims about the reduce stage\<close>




text \<open>
  C2 (as amended). When no document is found, so that the list given to the reduce stage is
  empty, the run ends with the \<^verbatim>\<open>ZeroDivisionError\<close> of \<^verbatim>\<open>sum_score / n\<close>: the program has
  no error of its own for the empty input, and it returns no result. This holds in every
  float arithmetic.
\<close>

theorem pipeline_no_documents:
  "pipeline ops str_float fs [] = Inl ZeroDivisionError"
  by (rule pipeline_empty)

text \<open>The reduce stage on the empty list surfaces the raw arithmetic fault.\<close>

theorem reducer_empty_counterexample:
  "reducer exact [] = Inl ZeroDivisionError \<and> reducer binary64 [] = Inl ZeroDivisionError"
  by (simp add: reducer_empty)







text \<open>
  C5. The reduce fold does not depend on the order of the triples: on two lists that are
  permutations of each other (the same multiset), \<^verbatim>\<open>reducer\<close> returns the same result, be
  it a pair or the error. Exact arithmetic.
\<close>

theorem reducer_order_independent:
  assumes "mset xs = mset ys"
  shows "reducer exact xs = reducer exact ys"
  by (simp add: reducer_unfold spec_mean_def spec_variance_def totals_mset [OF assms])

theorem reducer_order_independent_witness:
  "mset [(1, 2, 4), (1, 5, 25), (1, 9, 81)] = mset [(1, 9, 81), (1, 2, 4), (1, 5, 25 :: real)]
   \<and> reducer exact [(1, 2, 4), (1, 5, 25), (1, 9, 81)]
     = reducer exact [(1, 9, 81), (1, 2, 4), (1, 5, 25)]"
proof -
  have p: "mset [(1, 2, 4), (1, 5, 25), (1, 9, 81)]
         = mset [(1 :: int, 9 :: real, 81 :: real), (1, 2, 4), (1, 5, 25)]"
    by (simp add: add_mset_commute)
  show ?thesis
    using p reducer_order_independent [OF p] by simp
qed

text \<open>
  C10 (as amended). In exact arithmetic, \<^verbatim>\<open>variance ** 0.5\<close> never raises: whenever the
  counts do not sum to 0, \<^verbatim>\<open>reducer\<close> returns a pair. If every triple has a count of at
  least 1 (the mapper's triples have count 1) and a third component that is the square of
  the second, the branch of the negative variance is not reached: \<^verbatim>\<open>reducer\<close> returns no
  complex number. On the single triple \<open>(1, 2, 0)\<close>, whose third component is not the square
  of the second, \<^verbatim>\<open>reducer\<close> returns normally with the complex number \<open>2\<i>\<close>.
\<close>

theorem pow_half_never_raises:
  "(total_count data \<noteq> 0 \<longrightarrow> (\<exists>m s. reducer exact data = Inr (m, s)))
   \<and> ((\<forall>r\<in>set data. counted_square r) \<longrightarrow>
        (\<forall>m z. reducer exact data \<noteq> Inr (m, PyComplex z)))
   \<and> reducer exact [(1, 2, 0)] = Inr (2, PyComplex (Complex 0 2))"
proof (intro conjI impI)
  assume "total_count data \<noteq> 0"
  then show "\<exists>m s. reducer exact data = Inr (m, s)"
    by (simp add: reducer_unfold)
next
  assume sh: "\<forall>r\<in>set data. counted_square r"
  show "\<forall>m z. reducer exact data \<noteq> Inr (m, PyComplex z)"
  proof (cases "data = []")
    case True
    then show ?thesis by (simp add: reducer_empty)
  next
    case False
    with sh have "0 \<le> spec_variance data"
      by (simp add: counted_variance_nonneg)
    then show ?thesis
      by (simp add: reducer_unfold pow_half_def)
  qed
next
  show "reducer exact [(1, 2, 0)] = Inr (2, PyComplex (Complex 0 2))"
    by (simp add: reducer_unfold pow_half_def spec_mean_def spec_variance_def
        total_count_def total_value_def total_square_def)
qed

theorem pow_half_never_raises_witness:
  "total_count [(1, 6, 36)] \<noteq> 0 \<and> counted_square (1, 6, 36)
   \<and> (\<exists>m s. reducer exact [(1, 6, 36)] = Inr (m, s))
   \<and> reducer exact [(1, 6, 36)] \<noteq> Inr (6, PyComplex (Complex 0 1))"
proof -
  have n: "total_count [(1, 6, 36)] \<noteq> 0"
    by (simp add: total_count_def)
  have c: "counted_square (1, 6, 36)"
    by (simp add: counted_square_def)
  have sh: "\<forall>r\<in>set [(1, 6, 36)]. counted_square r"
    using c by simp
  show ?thesis
    using n c sh pow_half_never_raises [of "[(1, 6, 36)]"] by blast
qed

text \<open>
  With the square alone as the precondition the branch is reached: both triples below have
  the square of their value as third component, the second one has count 0, the variance
  is \<open>-4\<close> and the result is complex.
\<close>

theorem pow_half_never_raises_counterexample:
  "reducer exact [(1, 2, 4), (0, 1, 1)] = Inr (3, PyComplex (Complex 0 2))"
  by (simp add: reducer_unfold pow_half_def spec_mean_def spec_variance_def
      total_count_def total_value_def total_square_def)

section \<open>Claims about the map stage and the run\<close>

text \<open>
  C6 (as amended). For every document that exists, parses, and whose rating member coerces
  to a float \<open>v\<close> for which \<^verbatim>\<open>v ** 2\<close> does not overflow, the body of \<^verbatim>\<open>mapper\<close> yields exactly
  one triple, \<^verbatim>\<open>(1, v, v ** 2)\<close>. Whatever it yields is a single triple with count 1 whose
  third component is the float power \<^verbatim>\<open>** 2\<close> of the second. This holds in every float
  arithmetic.
\<close>

theorem mapper_one_record:
  "(has_rating ops str_float fs path v \<and> f_pow2 ops v = Inr w \<longrightarrow>
      mapper ops str_float fs path = Inr [(1, v, w)])
   \<and> (mapper ops str_float fs path = Inr rs \<longrightarrow>
        (\<exists>v w. rs = [(1, v, w)] \<and> has_rating ops str_float fs path v \<and> f_pow2 ops v = Inr w))"
  by (auto simp: mapper_Inr_iff)

theorem mapper_one_record_witness:
  "has_rating binary64 no_str_float textbook_fs ''1.json'' (Finite 2)
   \<and> f_pow2 binary64 (Finite 2) = Inr (Finite 4)
   \<and> mapper binary64 no_str_float textbook_fs ''1.json'' = Inr [(1, Finite 2, Finite 4)]"
proof -
  have h: "has_rating binary64 no_str_float textbook_fs ''1.json'' (Finite 2)"
    by (simp add: has_rating_def field_value_def textbook_fs_def textbook_files_def
        rating_doc_def)
  have p: "f_pow2 binary64 (Finite 2) = Inr (Finite 4)"
    by (simp add: binary64_fields round64_numeral)
  show ?thesis
    using h p
      mapper_one_record [of binary64 no_str_float textbook_fs "''1.json''" "Finite 2"
        "Finite 4" "[(1, Finite 2, Finite 4)]"]
    by blast
qed

text \<open>
  The claim as first stated fails on a document whose rating is the double \<open>2\<^sup>6\<^sup>0\<^sup>0\<close>: the
  document exists, parses, and its rating is a float, but its square is beyond the largest
  double, \<^verbatim>\<open>score**2\<close> raises \<^verbatim>\<open>OverflowError\<close> and no triple is yielded.
\<close>

theorem mapper_one_record_counterexample:
  "has_rating binary64 no_str_float huge_fs ''huge.json'' (Finite (2 ^ 600))
   \<and> mapper binary64 no_str_float huge_fs ''huge.json'' = Inl OverflowError"
  by (simp add: has_rating_def field_value_def mapper_def load_def getitem_def huge_fs_def
      rating_doc_def binary64_fields round64_def)

text \<open>
  C8 (as amended). The body of \<^verbatim>\<open>mapper\<close> fails if and only if the file is missing or
  cannot be opened, its content cannot be decoded or parsed as JSON, the parsed value has no
  member \<^verbatim>\<open>movieIMDbRating\<close>, that member does not coerce to a float, or the square of the
  float overflows. On every other input it yields one triple; a failing call yields
  nothing. This holds in every float arithmetic.
\<close>

theorem mapper_fails_iff:
  "((\<exists>e. mapper ops str_float fs path = Inl e) \<longleftrightarrow>
      file_missing fs path \<or> cannot_open fs path \<or> not_json fs path \<or> lacks_field fs path
      \<or> field_not_coercible ops str_float fs path \<or> square_overflows ops str_float fs path)
   \<and> (\<not> (file_missing fs path \<or> cannot_open fs path \<or> not_json fs path
          \<or> lacks_field fs path \<or> field_not_coercible ops str_float fs path
          \<or> square_overflows ops str_float fs path) \<longrightarrow>
        (\<exists>v w. mapper ops str_float fs path = Inr [(1, v, w)]))"
proof -
  let ?bad = "file_missing fs path \<or> cannot_open fs path \<or> not_json fs path
      \<or> lacks_field fs path \<or> field_not_coercible ops str_float fs path
      \<or> square_overflows ops str_float fs path"
  have fails: "(\<exists>e. mapper ops str_float fs path = Inl e) \<longleftrightarrow> ?bad"
    by (rule mapper_Inl_iff)
  have "\<exists>v w. mapper ops str_float fs path = Inr [(1, v, w)]" if "\<not> ?bad"
  proof (cases "mapper ops str_float fs path")
    case (Inl e)
    with fails that show ?thesis by blast
  next
    case (Inr rs)
    then show ?thesis by (auto simp: mapper_Inr_iff)
  qed
  with fails show ?thesis by blast
qed

theorem mapper_fails_iff_witness:
  "\<not> (file_missing textbook_fs ''3.json'' \<or> cannot_open textbook_fs ''3.json''
       \<or> not_json textbook_fs ''3.json'' \<or> lacks_field textbook_fs ''3.json''
       \<or> field_not_coercible binary64 no_str_float textbook_fs ''3.json''
       \<or> square_overflows binary64 no_str_float textbook_fs ''3.json'')
   \<and> (\<exists>v w. mapper binary64 no_str_float textbook_fs ''3.json'' = Inr [(1, v, w)])
   \<and> file_missing textbook_fs ''9.json''
   \<and> (\<exists>e. mapper binary64 no_str_float textbook_fs ''9.json'' = Inl e)"
proof -
  have good: "\<not> (file_missing textbook_fs ''3.json'' \<or> cannot_open textbook_fs ''3.json''
       \<or> not_json textbook_fs ''3.json'' \<or> lacks_field textbook_fs ''3.json''
       \<or> field_not_coercible binary64 no_str_float textbook_fs ''3.json''
       \<or> square_overflows binary64 no_str_float textbook_fs ''3.json'')"
    by (simp add: file_missing_def cannot_open_def not_json_def lacks_field_def
        field_not_coercible_def square_overflows_def field_value_def textbook_fs_def
        textbook_files_def rating_doc_def binary64_fields round64_numeral)
  have missing: "file_missing textbook_fs ''9.json''"
    by (simp add: file_missing_def textbook_fs_def textbook_files_def)
  show ?thesis
    using good missing
      mapper_fails_iff [of binary64 no_str_float textbook_fs "''3.json''"]
      mapper_fails_iff [of binary64 no_str_float textbook_fs "''9.json''"]
    by blast
qed

text \<open>
  The claim as first stated fails on two inputs that have none of its four defects. The
  document \<^verbatim>\<open>negative.json\<close> exists, parses, and its rating is the float \<open>- 2\<^sup>6\<^sup>0\<^sup>0\<close>, and
  \<^verbatim>\<open>mapper\<close> fails with \<^verbatim>\<open>OverflowError\<close>; \<^verbatim>\<open>dir.json\<close> is a directory, which is not missing,
  and \<^verbatim>\<open>mapper\<close> fails with \<^verbatim>\<open>IsADirectoryError\<close>.
\<close>

theorem mapper_fails_iff_counterexample:
  "\<not> file_missing huge_fs ''negative.json'' \<and> \<not> not_json huge_fs ''negative.json''
   \<and> \<not> lacks_field huge_fs ''negative.json''
   \<and> \<not> field_not_coercible binary64 no_str_float huge_fs ''negative.json''
   \<and> mapper binary64 no_str_float huge_fs ''negative.json'' = Inl OverflowError
   \<and> \<not> file_missing huge_fs ''dir.json''
   \<and> mapper binary64 no_str_float huge_fs ''dir.json'' = Inl (IsADirectoryError ''dir.json'')"
  by (simp add: file_missing_def not_json_def lacks_field_def field_not_coercible_def
      field_value_def mapper_def load_def getitem_def huge_fs_def rating_doc_def
      binary64_fields round64_def)

text \<open>
  C9 (as amended). When a document of the input set is malformed (unparseable content, or
  no rating member), the run fails, and the error it fails with does not name the document.
  The error that the body of \<^verbatim>\<open>mapper\<close> raises on such a document names no path either, and
  nothing in the program adds one. This holds in every float arithmetic.
\<close>

theorem malformed_document_error:
  assumes "path \<in> set files" and "malformed fs path"
  shows "(\<exists>e. pipeline ops str_float fs files = Inl e \<and> error_path e = None)
     \<and> (\<exists>e. mapper ops str_float fs path = Inl e \<and> error_path e = None)"
proof -
  from assms(1) have "files \<noteq> []"
    by auto
  then have "pipeline ops str_float fs files = Inl TypeError"
    by (rule pipeline_nonempty)
  moreover have "error_path TypeError = None"
    by simp
  ultimately have "\<exists>e. pipeline ops str_float fs files = Inl e \<and> error_path e = None"
    by blast
  with mapper_malformed [OF assms(2)] show ?thesis
    by blast
qed

theorem malformed_document_error_witness:
  "''b.json'' \<in> set [''a.json'', ''b.json''] \<and> malformed bad_second_fs ''b.json''
   \<and> (\<exists>e. pipeline binary64 no_str_float bad_second_fs [''a.json'', ''b.json''] = Inl e
         \<and> error_path e = None)
   \<and> (\<exists>e. mapper binary64 no_str_float bad_second_fs ''b.json'' = Inl e
         \<and> error_path e = None)"
proof -
  have a: "''b.json'' \<in> set [''a.json'', ''b.json'']"
    by simp
  have b: "malformed bad_second_fs ''b.json''"
    by (simp add: malformed_def not_json_def lacks_field_def bad_second_fs_def)
  show ?thesis
    using a b malformed_document_error [OF a b, of binary64 no_str_float] by blast
qed

text \<open>
  The error does not say which document failed: with the malformed document first or
  second in the list, the run fails with the same \<^verbatim>\<open>TypeError\<close>, which names no path.
\<close>

theorem malformed_document_counterexample:
  "pipeline binary64 no_str_float bad_first_fs [''a.json'', ''b.json''] = Inl TypeError
   \<and> pipeline binary64 no_str_float bad_second_fs [''a.json'', ''b.json''] = Inl TypeError
   \<and> error_path TypeError = None"
  by (simp add: pipeline_nonempty)

text \<open>
  C7 (the run at the failing input). For the eight documents with the ratings 2, 4, 4, 4,
  5, 5, 7, 9 the body of \<^verbatim>\<open>mapper\<close> yields the triples \<open>(1, v, v\<^sup>2)\<close>, and \<^verbatim>\<open>reducer\<close> over
  these eight triples returns mean 5 and standard deviation 2. The run of the module on
  the eight documents does not return them: it ends in \<^verbatim>\<open>TypeError\<close>, because what
  \<^verbatim>\<open>executor.map\<close> has to carry from each call is a generator object.
\<close>

theorem pipeline_known_results:
  "map (mapper binary64 no_str_float textbook_fs) textbook_files
     = map (\<lambda>t. Inr [t]) textbook_triples
   \<and> reducer binary64 textbook_triples = Inr (Finite 5, PyFloat (Finite 2))
   \<and> pipeline binary64 no_str_float textbook_fs textbook_files = Inl TypeError"
proof -
  have "map (mapper binary64 no_str_float textbook_fs) textbook_files
      = map (\<lambda>t. Inr [t]) textbook_triples"
    by (simp add: mapper_def load_def getitem_def textbook_fs_def textbook_files_def
        textbook_triples_def rating_doc_def binary64_fields round64_numeral)
  moreover have "pipeline binary64 no_str_float textbook_fs textbook_files = Inl TypeError"
    by (rule pipeline_nonempty) (simp add: textbook_files_def)
  ultimately show ?thesis
    by (simp add: reducer_textbook_triples)
qed

end
